theory Spec2Isabelle
  imports Complex_Main
begin

section \<open>The image editor of \<^verbatim>\<open>src/main.py\<close>\<close>

text \<open>
  The program is one Streamlit script. Streamlit runs \<^verbatim>\<open>main()\<close> from the top on
  every interaction; what survives from one run to the next is the session state
  (\<^verbatim>\<open>st.session_state\<close>), and what a run reads from the page are the values its
  widgets return. A run is modelled as a function from the widget values and the
  session state to the new session state, the list of things it put on the page, and
  whether it asked for a rerun.
\<close>

subsection \<open>Data\<close>

text \<open>
  A PIL image, as far as the script looks at it: its \<^verbatim>\<open>mode\<close>, its size, and its
  pixel data, which the script never inspects (a number standing for it).
\<close>

record image =
  mode :: string
  img_width :: int
  img_height :: int
  pixels :: nat

text \<open>The uploaded file: its \<^verbatim>\<open>name\<close> and its bytes.\<close>

record upload =
  upload_name :: string
  upload_bytes :: "nat list"

text \<open>
  One entry of \<^verbatim>\<open>st.session_state.drawings\<close>: the dictionary built in
  \<^verbatim>\<open>handle_point_addition\<close>, with its keys \<^verbatim>\<open>type\<close>, \<^verbatim>\<open>x0\<close>, \<^verbatim>\<open>y0\<close>,
  \<^verbatim>\<open>x1\<close>, \<^verbatim>\<open>y1\<close>, \<^verbatim>\<open>color\<close>, \<^verbatim>\<open>width\<close> and \<^verbatim>\<open>measure\<close>
  (here \<open>dtype\<close> and \<open>measure_flag\<close>, the other names as in the source).
\<close>

record drawing =
  dtype :: string
  x0 :: int
  y0 :: int
  x1 :: int
  y1 :: int
  color :: string
  width :: int
  measure_flag :: bool

text \<open>
  The session state. The first eight fields are the keys the script initialises at
  its top (lines 11-26). The last two are the keys \<^verbatim>\<open>'color'\<close> and
  \<^verbatim>\<open>'line_width'\<close>, which \<^verbatim>\<open>handle_point_addition\<close> reads with
  \<^verbatim>\<open>st.session_state.get(key, default)\<close>: \<open>None\<close> is the key being absent.
  \<^verbatim>\<open>fig\<close> is only ever assigned \<^verbatim>\<open>None\<close>.
\<close>

record session_state =
  drawings :: "drawing list"
  current_tool :: string
  bg_removed_image :: "image option"
  original_image :: "image option"
  active_image :: "image option"
  start_point :: "(int \<times> int) option"
  fig :: "unit option"
  original_filename :: "string option"
  ss_color :: "string option"
  ss_line_width :: "int option"

text \<open>The state after the initialisation at the top of the script, in a fresh session.\<close>

definition initial_session_state :: session_state where
  "initial_session_state =
     \<lparr>drawings = [], current_tool = ''select'', bg_removed_image = None,
      original_image = None, active_image = None, start_point = None, fig = None,
      original_filename = None, ss_color = None, ss_line_width = None\<rparr>"

subsection \<open>What a run puts on the page\<close>

text \<open>
  The measurement label. The script computes \<^verbatim>\<open>distance = n ** 0.5\<close> for the
  integer \<open>n = (x1 - x0)\<^sup>2 + (y1 - y0)\<^sup>2\<close> and draws the text
  \<^verbatim>\<open>f"{distance:.1f} px"\<close>. The power and the formatting are floating-point
  operations of the interpreter; the label is kept as the integer under the root,
  which determines it.
\<close>

datatype label = Distance_px int

text \<open>
  The artists a figure holds: \<^verbatim>\<open>plt.Line2D(xdata, ydata, color, linewidth)\<close> and
  \<^verbatim>\<open>ax.text(x, y, s, color, fontsize)\<close>. The position of a text is the quotient of
  an integer by 2, kept as a rational; its \<^verbatim>\<open>bbox\<close> argument is the same constant
  dictionary in every call and is left out.
\<close>

datatype artist =
  Line2D "int list" "int list" string int
| Text rat rat label string nat

text \<open>
  A figure: the \<^verbatim>\<open>figsize\<close> given to \<^verbatim>\<open>plt.subplots\<close> (\<open>None\<close> for the default),
  the image shown by \<^verbatim>\<open>ax.imshow\<close>, and the artists in the order they were added.
  Both paths call \<^verbatim>\<open>ax.axis('off')\<close>.
\<close>

record figure =
  figsize :: "(nat \<times> nat) option"
  shown :: image
  artists :: "artist list"

text \<open>
  The buffer \<^verbatim>\<open>fig.savefig(buf, format='png', bbox_inches='tight', pad_inches=0,
  dpi=300)\<close> fills: the figure it encodes and the resolution.
\<close>

datatype png_buffer = Png figure nat

text \<open>The \<^verbatim>\<open>data\<close> of a download button: a saved figure, or an image saved as PNG.\<close>

datatype download_data = AnnotatedPng png_buffer | ImagePng image

text \<open>
  What a run shows that depends on its inputs: \<^verbatim>\<open>st.error\<close>, \<^verbatim>\<open>st.success\<close>,
  \<^verbatim>\<open>st.sidebar.image(image, caption)\<close>, \<^verbatim>\<open>st.pyplot(fig)\<close> and
  \<^verbatim>\<open>st.download_button(label, data, file_name)\<close>. Titles, headers and the widgets
  themselves are the same in every run and are not recorded.
\<close>

datatype ui_event =
  StError string
| StSuccess string
| SidebarImage image string
| Pyplot figure
| DownloadButton string download_data string

subsection \<open>The libraries\<close>

text \<open>
  The libraries the script calls, as parameters: what they compute is not in the
  repository. A call that can raise returns \<open>Inl\<close> of the exception's \<^verbatim>\<open>str\<close>.
  \<^item> \<open>pil_open\<close>: \<^verbatim>\<open>Image.open(uploaded_file)\<close>;
  \<^item> \<open>pil_convert\<close>: \<^verbatim>\<open>image.convert(mode)\<close>;
  \<^item> \<open>pil_copy\<close>: \<^verbatim>\<open>image.copy()\<close>;
  \<^item> \<open>rembg_remove\<close>: \<^verbatim>\<open>rembg.remove(image)\<close>;
  \<^item> \<open>splitext_root\<close>: \<^verbatim>\<open>os.path.splitext(name)[0]\<close>;
  \<^item> \<open>imshow_none_error\<close>: the \<^verbatim>\<open>str\<close> of the exception \<^verbatim>\<open>ax.imshow(None)\<close> raises.

  The calls that put data of the upload or of the session on the page can raise as
  well; for each, the exception it raises on its argument, \<open>None\<close> when it returns:
  \<^item> \<open>st_image_raises\<close>: \<^verbatim>\<open>st.sidebar.image(image, ...)\<close> (lines 50 and 58);
  \<^item> \<open>pyplot_raises\<close>: building the figure of the display path and \<^verbatim>\<open>st.pyplot(fig)\<close>
    (lines 126-152);
  \<^item> \<open>sliders_raise\<close>: the two \<^verbatim>\<open>st.slider\<close> calls, whose bounds are the size of the
    active image (lines 155-160);
  \<^item> \<open>savefig_raises\<close>: building and saving the figure of the export path
    (lines 195-213);
  \<^item> \<open>save_png_raises\<close>: \<^verbatim>\<open>bg_removed_image.save(buffered, format="PNG")\<close> (line 97);
  \<^item> \<open>download_button_raises\<close>: \<^verbatim>\<open>st.download_button(...)\<close> on its data (lines 87
    and 98).

  Calls whose arguments depend neither on the upload nor on the session (the title,
  the buttons, the radio, the colour picker, the width slider, the columns,
  \<^verbatim>\<open>st.error\<close>, \<^verbatim>\<open>st.success\<close>) are taken to return.
\<close>

record ext =
  pil_open :: "upload \<Rightarrow> string + image"
  pil_convert :: "image \<Rightarrow> string \<Rightarrow> string + image"
  pil_copy :: "image \<Rightarrow> string + image"
  rembg_remove :: "image \<Rightarrow> string + image"
  splitext_root :: "string \<Rightarrow> string"
  imshow_none_error :: string
  st_image_raises :: "image \<Rightarrow> string option"
  pyplot_raises :: "figure \<Rightarrow> string option"
  sliders_raise :: "image \<Rightarrow> string option"
  savefig_raises :: "figure \<Rightarrow> string option"
  save_png_raises :: "image \<Rightarrow> string option"
  download_button_raises :: "download_data \<Rightarrow> string option"

subsection \<open>The widgets\<close>

text \<open>The values the widgets of one run return.\<close>

record inputs =
  uploaded_file :: "upload option"
  remove_bg_clicked :: bool
  tool_radio :: string
  color_picker :: string
  width_slider :: int
  clear_clicked :: bool
  slider_x :: int
  slider_y :: int
  add_point_clicked :: bool
  save_clicked :: bool

subsection \<open>Printing integers\<close>

text \<open>\<^verbatim>\<open>str\<close> of a Python integer, for the f-strings that print coordinates.\<close>

fun str_nat :: "nat \<Rightarrow> string" where
  "str_nat n =
     (if n < 10 then [''0123456789'' ! n]
      else str_nat (n div 10) @ [''0123456789'' ! (n mod 10)])"

declare str_nat.simps [simp del]

definition str_int :: "int \<Rightarrow> string" where
  "str_int i = (if i < 0 then ''-'' @ str_nat (nat (- i)) else str_nat (nat i))"

subsection \<open>The annotation store\<close>

text \<open>
  \<^verbatim>\<open>handle_point_addition(x, y)\<close> (lines 169-189). The result is the new session
  state, the messages shown, and whether \<^verbatim>\<open>st.experimental_rerun()\<close> was called:
  that call raises Streamlit's rerun signal, which is not an \<^verbatim>\<open>Exception\<close>, so no
  \<^verbatim>\<open>except Exception\<close> of the script catches it and the run ends there with the
  state as it is.
\<close>

definition handle_point_addition ::
    "int \<Rightarrow> int \<Rightarrow> session_state \<Rightarrow> session_state \<times> ui_event list \<times> bool" where
  "handle_point_addition x y s =
     (if current_tool s \<in> set [''line'', ''measure''] then
        (case start_point s of
           None \<Rightarrow>
             (s\<lparr>start_point := Some (x, y)\<rparr>,
              [StSuccess (''Start point set at ('' @ str_int x @ '', '' @ str_int y @ '')'')],
              False)
         | Some (px, py) \<Rightarrow>
             (s\<lparr>drawings := drawings s @
                   [\<lparr>dtype = ''line'', x0 = px, y0 = py, x1 = x, y1 = y,
                     color = (case ss_color s of None \<Rightarrow> ''#FF0000'' | Some c \<Rightarrow> c),
                     width = (case ss_line_width s of None \<Rightarrow> 2 | Some w \<Rightarrow> w),
                     measure_flag = (current_tool s = ''measure'')\<rparr>],
                 start_point := None\<rparr>,
              [], True))
      else (s, [], False))"

text \<open>
  The block under \<^verbatim>\<open>if st.sidebar.button("Clear All Annotations")\<close> (lines 75-76).
\<close>

definition clear_all_annotations :: "session_state \<Rightarrow> session_state" where
  "clear_all_annotations s = s\<lparr>drawings := [], start_point := None\<rparr>"

text \<open>\<^verbatim>\<open>reset_session_state()\<close> (lines 220-228); it leaves \<^verbatim>\<open>original_filename\<close>.\<close>

definition reset_session_state :: "session_state \<Rightarrow> session_state" where
  "reset_session_state s =
     s\<lparr>drawings := [], current_tool := ''select'', bg_removed_image := None,
       original_image := None, active_image := None, start_point := None, fig := None\<rparr>"

subsection \<open>Opening the upload\<close>

text \<open>
  \<^verbatim>\<open>verify_and_convert_image(uploaded_file)\<close> (lines 110-120): the image or
  \<^verbatim>\<open>None\<close>, and the error it shows. Both \<^verbatim>\<open>Image.open\<close> and
  \<^verbatim>\<open>image.convert\<close> stand inside the \<^verbatim>\<open>try\<close>.
\<close>

definition verify_and_convert_image :: "ext \<Rightarrow> upload \<Rightarrow> image option \<times> ui_event list" where
  "verify_and_convert_image E f =
     (case pil_open E f of
        Inl e \<Rightarrow> (None, [StError (''Invalid image file: '' @ e)])
      | Inr img \<Rightarrow>
          if mode img \<in> set [''RGBA'', ''LA'', ''P''] then
            (case pil_convert E img ''RGB'' of
               Inl e \<Rightarrow> (None, [StError (''Invalid image file: '' @ e)])
             | Inr converted \<Rightarrow> (Some converted, []))
          else (Some img, []))"

subsection \<open>Rendering\<close>

text \<open>
  The loop of the display path (lines 131-150): for each drawing of type
  \<^verbatim>\<open>'line'\<close> a \<^verbatim>\<open>Line2D\<close>, and for a drawing whose \<^verbatim>\<open>measure\<close> is true also the
  label at the midpoint.
\<close>

primrec draw_existing_annotations :: "drawing list \<Rightarrow> artist list" where
  "draw_existing_annotations [] = []"
| "draw_existing_annotations (d # ds) =
     (if dtype d = ''line'' then
        Line2D [x0 d, x1 d] [y0 d, y1 d] (color d) (width d) #
        (if measure_flag d then
           [Text (of_int (x0 d + x1 d) / 2) (of_int (y0 d + y1 d) / 2)
              (Distance_px ((x1 d - x0 d)\<^sup>2 + (y1 d - y0 d)\<^sup>2)) (color d) 12]
         else [])
      else [])
     @ draw_existing_annotations ds"

text \<open>The loop of the export path (lines 200-208).\<close>

primrec redraw_all_annotations :: "drawing list \<Rightarrow> artist list" where
  "redraw_all_annotations [] = []"
| "redraw_all_annotations (d # ds) =
     (if dtype d = ''line'' then [Line2D [x0 d, x1 d] [y0 d, y1 d] (color d) (width d)]
      else [])
     @ redraw_all_annotations ds"

text \<open>
  \<^verbatim>\<open>display_image_with_drawing_tools()\<close> (lines 123-166). \<^verbatim>\<open>ax.imshow\<close> raises on
  \<^verbatim>\<open>None\<close>. Whatever is raised before the Add Point button is reached, the
  \<^verbatim>\<open>except\<close> of the function turns into a message, and the button is then not
  looked at. The figure is shown before the sliders are made.
\<close>

definition display_image_with_drawing_tools ::
    "ext \<Rightarrow> inputs \<Rightarrow> session_state \<Rightarrow> session_state \<times> ui_event list \<times> bool" where
  "display_image_with_drawing_tools E inp s =
     (case active_image s of
        None \<Rightarrow> (s, [StError (''Display error: '' @ imshow_none_error E)], False)
      | Some img \<Rightarrow>
          (let shown_fig = \<lparr>figsize = Some (10, 10), shown = img,
                            artists = draw_existing_annotations (drawings s)\<rparr>
           in case pyplot_raises E shown_fig of
                Some e \<Rightarrow> (s, [StError (''Display error: '' @ e)], False)
              | None \<Rightarrow>
                  (case sliders_raise E img of
                     Some e \<Rightarrow>
                       (s, [Pyplot shown_fig, StError (''Display error: '' @ e)], False)
                   | None \<Rightarrow>
                       if add_point_clicked inp then
                         (case handle_point_addition (slider_x inp) (slider_y inp) s of
                            (s', evs, rerun) \<Rightarrow> (s', Pyplot shown_fig # evs, rerun))
                       else (s, [Pyplot shown_fig], False))))"

text \<open>\<^verbatim>\<open>get_annotated_image()\<close> (lines 192-217): the buffer or \<^verbatim>\<open>None\<close>.\<close>

definition get_annotated_image ::
    "ext \<Rightarrow> session_state \<Rightarrow> png_buffer option \<times> ui_event list" where
  "get_annotated_image E s =
     (case active_image s of
        None \<Rightarrow>
          (None, [StError (''Error generating annotated image: '' @ imshow_none_error E)])
      | Some img \<Rightarrow>
          (let saved_fig = \<lparr>figsize = None, shown = img,
                            artists = redraw_all_annotations (drawings s)\<rparr>
           in case savefig_raises E saved_fig of
                Some e \<Rightarrow>
                  (None, [StError (''Error generating annotated image: '' @ e)])
              | None \<Rightarrow> (Some (Png saved_fig 300), [])))"

subsection \<open>One run of the script\<close>

text \<open>
  The block under \<^verbatim>\<open>if st.sidebar.button("Remove Background")\<close> (lines 54-62), for the
  image \<^verbatim>\<open>image\<close> of the run. The assignment to \<^verbatim>\<open>bg_removed_image\<close> happens only
  once \<^verbatim>\<open>remove\<close> has returned. \<^verbatim>\<open>st.sidebar.image\<close> stands in the same
  \<^verbatim>\<open>try\<close>, after the two assignments: when it raises, the same message is shown
  and the assignments stay.
\<close>

definition remove_background ::
    "ext \<Rightarrow> image \<Rightarrow> session_state \<Rightarrow> session_state \<times> ui_event list" where
  "remove_background E img s =
     (case rembg_remove E img of
        Inl e \<Rightarrow> (s, [StError (''Background removal failed: '' @ e)])
      | Inr removed \<Rightarrow>
          (s\<lparr>bg_removed_image := Some removed, active_image := Some removed\<rparr>,
           (case st_image_raises E removed of
              Some e \<Rightarrow> [StError (''Background removal failed: '' @ e)]
            | None \<Rightarrow> [SidebarImage removed ''Background Removed''])))"

text \<open>The assignment of the radio's value to \<^verbatim>\<open>current_tool\<close> (lines 65-69).\<close>

definition set_current_tool :: "string \<Rightarrow> session_state \<Rightarrow> session_state" where
  "set_current_tool t s = s\<lparr>current_tool := t\<rparr>"

text \<open>
  The two download columns (lines 82-103): what they show, and the exception that
  ends them, if any. They do not change the state. \<^verbatim>\<open>get_annotated_image\<close>
  catches its own exceptions; the download buttons and the saving of the
  background-removed image do not.
\<close>

definition download_buttons ::
    "ext \<Rightarrow> inputs \<Rightarrow> session_state \<Rightarrow> ui_event list \<times> string option" where
  "download_buttons E inp s =
     (let (evs1, raised1) =
            (if save_clicked inp then
               (case get_annotated_image E s of
                  (Some buf, evs) \<Rightarrow>
                    (case download_button_raises E (AnnotatedPng buf) of
                       Some e \<Rightarrow> (evs, Some e)
                     | None \<Rightarrow>
                         (evs @ [DownloadButton ''Download Annotated Image''
                                   (AnnotatedPng buf) ''annotated_image.png''], None))
                | (None, evs) \<Rightarrow> (evs, None))
             else ([], None))
      in case raised1 of
           Some e \<Rightarrow> (evs1, Some e)
         | None \<Rightarrow>
             (case bg_removed_image s of
                None \<Rightarrow> (evs1, None)
              | Some removed \<Rightarrow>
                  (case save_png_raises E removed of
                     Some e \<Rightarrow> (evs1, Some e)
                   | None \<Rightarrow>
                       (case download_button_raises E (ImagePng removed) of
                          Some e \<Rightarrow> (evs1, Some e)
                        | None \<Rightarrow>
                            (evs1 @
                             [DownloadButton ''Download BG-Removed Image'' (ImagePng removed)
                                ((case original_filename s of None \<Rightarrow> ''None''
                                  | Some n \<Rightarrow> n) @ ''_bg_removed.png'')],
                             None)))))"

text \<open>
  The body of the \<^verbatim>\<open>try\<close> of \<^verbatim>\<open>main()\<close> from line 44 on, for the upload \<open>f\<close> and
  the image \<open>img\<close> that verification returned: the state when the body ends, what
  it showed, and how it ended, \<open>Inl e\<close> when a call raised \<open>e\<close> into the outer
  \<^verbatim>\<open>except\<close>, \<open>Inr rerun\<close> otherwise. The values of the colour picker and of the
  width slider (lines 71-72) go to the local variables \<^verbatim>\<open>color\<close> and
  \<^verbatim>\<open>line_width\<close>, which nothing reads: the widgets have no \<^verbatim>\<open>key\<close>, so Streamlit
  stores nothing under \<^verbatim>\<open>'color'\<close> or \<^verbatim>\<open>'line_width'\<close> in the session state. A
  rerun asked for by \<^verbatim>\<open>handle_point_addition\<close> ends the run before the download
  columns.
\<close>

definition main_body ::
    "ext \<Rightarrow> inputs \<Rightarrow> upload \<Rightarrow> image \<Rightarrow> session_state
       \<Rightarrow> session_state \<times> ui_event list \<times> (string + bool)" where
  "main_body E inp f img s =
     (let s1 = s\<lparr>original_filename := Some (splitext_root E (upload_name f)),
                 original_image := Some img\<rparr>
      in case pil_copy E img of
           Inl e \<Rightarrow> (s1, [], Inl e)
         | Inr copied \<Rightarrow>
             (let s2 = s1\<lparr>active_image := Some copied\<rparr>
              in case st_image_raises E img of
                   Some e \<Rightarrow> (s2, [], Inl e)
                 | None \<Rightarrow>
                     (let (s3, evs3) =
                            (if remove_bg_clicked inp then remove_background E img s2
                             else (s2, []));
                          s4 = set_current_tool (tool_radio inp) s3;
                          s5 = (if clear_clicked inp then clear_all_annotations s4 else s4);
                          (s6, evs6, rerun) = display_image_with_drawing_tools E inp s5;
                          shown_so_far = [SidebarImage img ''Original Image''] @ evs3 @ evs6
                      in if rerun then (s6, shown_so_far, Inr True)
                         else
                           (case download_buttons E inp s6 of
                              (evs7, Some e) \<Rightarrow> (s6, shown_so_far @ evs7, Inl e)
                            | (evs7, None) \<Rightarrow> (s6, shown_so_far @ evs7, Inr False)))))"

text \<open>
  \<^verbatim>\<open>main()\<close> (lines 29-107). Without an upload nothing happens. When verification
  returns \<^verbatim>\<open>None\<close> the run ends with a message and the state as it was. Otherwise
  the body runs; when it raises, the outer \<^verbatim>\<open>except\<close> shows the error and calls
  \<^verbatim>\<open>reset_session_state()\<close> on the state the body left.
\<close>

definition main :: "ext \<Rightarrow> inputs \<Rightarrow> session_state \<Rightarrow> session_state \<times> ui_event list \<times> bool" where
  "main E inp s =
     (case uploaded_file inp of
        None \<Rightarrow> (s, [], False)
      | Some f \<Rightarrow>
          (case verify_and_convert_image E f of
             (None, evs) \<Rightarrow> (s, evs @ [StError ''Invalid image file''], False)
           | (Some img, evs) \<Rightarrow>
               (case main_body E inp f img s of
                  (s', evs', Inl e) \<Rightarrow>
                    (reset_session_state s',
                     evs @ evs' @ [StError (''Error processing image: '' @ e)], False)
                | (s', evs', Inr rerun) \<Rightarrow> (s', evs @ evs', rerun))))"

subsection \<open>Sequences of events\<close>

text \<open>
  A sequence of Add Point clicks, each with the tool the radio shows in that run and
  the coordinates of the two sliders.
\<close>

fun submit_points :: "(string \<times> int \<times> int) list \<Rightarrow> session_state \<Rightarrow> session_state" where
  "submit_points [] s = s"
| "submit_points ((t, x, y) # evs) s =
     submit_points evs (fst (handle_point_addition x y (set_current_tool t s)))"

text \<open>A sequence of runs of the script, one per interaction.\<close>

fun runs :: "ext \<Rightarrow> inputs list \<Rightarrow> session_state \<Rightarrow> session_state" where
  "runs E [] s = s"
| "runs E (inp # inps) s = runs E inps (fst (main E inp s))"

text \<open>
  One behaviour of the libraries, to run the script on concrete inputs: every upload
  opens as a 640 by 480 image whose mode is \<^verbatim>\<open>P\<close> when the file is empty,
  \<^verbatim>\<open>I;16\<close> when it is the single byte 16 and \<^verbatim>\<open>RGB\<close> otherwise; conversion and
  copy succeed; background removal fails; the root of a file name is what stands
  before its last dot; \<^verbatim>\<open>st.sidebar.image\<close> raises on an image of mode
  \<^verbatim>\<open>I;16\<close>, and no other call raises.
\<close>

definition sample_ext :: ext where
  "sample_ext =
     \<lparr>pil_open = (\<lambda>f. Inr \<lparr>mode = (if upload_bytes f = [] then ''P''
                                     else if upload_bytes f = [16] then ''I;16''
                                     else ''RGB''),
                             img_width = 640, img_height = 480,
                             pixels = length (upload_bytes f)\<rparr>),
      pil_convert = (\<lambda>img m. Inr (img\<lparr>mode := m\<rparr>)),
      pil_copy = (\<lambda>img. Inr img),
      rembg_remove = (\<lambda>img. Inl ''model file not found''),
      splitext_root =
        (\<lambda>n. if CHR ''.'' \<in> set n
              then rev (tl (dropWhile (\<lambda>c. c \<noteq> CHR ''.'') (rev n))) else n),
      imshow_none_error = ''Image data of dtype object cannot be converted to float'',
      st_image_raises =
        (\<lambda>img. if mode img = ''I;16'' then Some ''cannot write mode I;16 as JPEG''
                else None),
      pyplot_raises = (\<lambda>fg. None),
      sliders_raise = (\<lambda>img. None),
      savefig_raises = (\<lambda>fg. None),
      save_png_raises = (\<lambda>img. None),
      download_button_raises = (\<lambda>d. None)\<rparr>"

text \<open>
  Sample inputs. Three uploads; \<open>click t x y\<close> is a run in which the first file is
  in the uploader, the user has picked green and width 5, the radio shows \<open>t\<close>, the
  sliders show \<open>x\<close> and \<open>y\<close>, and Add Point is clicked; \<open>load f\<close> is a run with
  the file \<open>f\<close> in the uploader, every widget at its default and no button clicked.
\<close>

definition sample_upload :: upload where
  "sample_upload = \<lparr>upload_name = ''photo.png'', upload_bytes = [137, 80, 78, 71]\<rparr>"

definition other_upload :: upload where
  "other_upload = \<lparr>upload_name = ''second.jpg'', upload_bytes = [255, 216, 255]\<rparr>"

definition grey16_upload :: upload where
  "grey16_upload = \<lparr>upload_name = ''scan.png'', upload_bytes = [16]\<rparr>"

definition click :: "string \<Rightarrow> int \<Rightarrow> int \<Rightarrow> inputs" where
  "click t x y =
     \<lparr>uploaded_file = Some sample_upload, remove_bg_clicked = False, tool_radio = t,
      color_picker = ''#00FF00'', width_slider = 5, clear_clicked = False,
      slider_x = x, slider_y = y, add_point_clicked = True, save_clicked = False\<rparr>"

definition load :: "upload \<Rightarrow> inputs" where
  "load f =
     \<lparr>uploaded_file = Some f, remove_bg_clicked = False, tool_radio = ''select'',
      color_picker = ''#FF0000'', width_slider = 2, clear_clicked = False,
      slider_x = 320, slider_y = 240, add_point_clicked = False, save_clicked = False\<rparr>"

text \<open>
  Two more behaviours of the libraries and a third kind of upload: with
  \<open>truncating_ext\<close> every \<^verbatim>\<open>image.convert\<close> raises, as it does on a file whose
  data is cut short (\<^verbatim>\<open>Image.open\<close> reads the header only); with \<open>removing_ext\<close>
  the background removal returns an \<^verbatim>\<open>RGBA\<close> image; \<open>palette_upload\<close> is a file
  that opens in mode \<^verbatim>\<open>P\<close>.
\<close>

definition truncating_ext :: ext where
  "truncating_ext = sample_ext\<lparr>pil_convert := (\<lambda>img m. Inl ''image file is truncated'')\<rparr>"

definition removing_ext :: ext where
  "removing_ext = sample_ext\<lparr>rembg_remove := (\<lambda>img. Inr (img\<lparr>mode := ''RGBA''\<rparr>))\<rparr>"

definition palette_upload :: upload where
  "palette_upload = \<lparr>upload_name = ''logo.png'', upload_bytes = []\<rparr>"

text \<open>
  A state in which nothing is stored under \<^verbatim>\<open>'color'\<close> or \<^verbatim>\<open>'line_width'\<close> and
  every drawing has the two defaults of \<^verbatim>\<open>handle_point_addition\<close>.
\<close>

definition default_style_only :: "session_state \<Rightarrow> bool" where
  "default_style_only s \<longleftrightarrow>
     ss_color s = None \<and> ss_line_width s = None
     \<and> list_all (\<lambda>d. color d = ''#FF0000'' \<and> width d = 2) (drawings s)"

section \<open>Properties\<close>

lemmas run_defs = main_def verify_and_convert_image_def display_image_with_drawing_tools_def
  handle_point_addition_def set_current_tool_def clear_all_annotations_def remove_background_def
  download_buttons_def get_annotated_image_def reset_session_state_def main_body_def

lemmas sample_defs = sample_ext_def sample_upload_def other_upload_def grey16_upload_def
  palette_upload_def truncating_ext_def removing_ext_def click_def load_def
  initial_session_state_def

subsection \<open>Submitting points\<close>

text \<open>What one Add Point click does when the tool is \<^verbatim>\<open>line\<close> or \<^verbatim>\<open>measure\<close>.\<close>

lemma submit_step_None:
  "t \<in> set [''line'', ''measure''] \<Longrightarrow> start_point s = None \<Longrightarrow>
   fst (handle_point_addition x y (set_current_tool t s))
     = s\<lparr>current_tool := t, start_point := Some (x, y)\<rparr>"
  by (auto simp add: handle_point_addition_def set_current_tool_def)

lemma submit_step_Some:
  "t \<in> set [''line'', ''measure''] \<Longrightarrow> start_point s = Some (px, py) \<Longrightarrow>
   fst (handle_point_addition x y (set_current_tool t s))
     = s\<lparr>current_tool := t,
         drawings := drawings s @
           [\<lparr>dtype = ''line'', x0 = px, y0 = py, x1 = x, y1 = y,
             color = (case ss_color s of None \<Rightarrow> ''#FF0000'' | Some c \<Rightarrow> c),
             width = (case ss_line_width s of None \<Rightarrow> 2 | Some w \<Rightarrow> w),
             measure_flag = (t = ''measure'')\<rparr>],
         start_point := None\<rparr>"
  by (auto simp add: handle_point_addition_def set_current_tool_def)

text \<open>
  The count of drawings and the pending point after any number of clicks, from any
  state: a pending point counts as one click already made.
\<close>

lemma submit_points_count:
  "\<forall>e\<in>set evs. fst e \<in> set [''line'', ''measure''] \<Longrightarrow>
   length (drawings (submit_points evs s))
     = length (drawings s) + (length evs + (if start_point s = None then 0 else 1)) div 2
   \<and> (start_point (submit_points evs s) = None
        \<longleftrightarrow> even (length evs + (if start_point s = None then 0 else 1)))"
proof (induction evs arbitrary: s)
  case Nil
  then show ?case by simp
next
  case (Cons e evs)
  obtain t x y where e: "e = (t, x, y)" by (cases e) auto
  from Cons.prems e have t: "t \<in> set [''line'', ''measure'']" by simp
  from Cons.prems have rest: "\<forall>e\<in>set evs. fst e \<in> set [''line'', ''measure'']" by simp
  show ?case
  proof (cases "start_point s")
    case None
    then show ?thesis
      using Cons.IH [OF rest, of "s\<lparr>current_tool := t, start_point := Some (x, y)\<rparr>"]
      by (simp add: e submit_step_None [OF t None])
  next
    case (Some p)
    obtain px py where p: "p = (px, py)" by (cases p) auto
    show ?thesis
      using Cons.IH [OF rest] Some
      by (simp add: e submit_step_Some [OF t Some [unfolded p]])
  qed
qed

text \<open>
  C4. For every sequence of Add Point clicks made with the tool on \<^verbatim>\<open>line\<close> or
  \<^verbatim>\<open>measure\<close>, from a state without a pending point: the number of drawings grows
  by one for every two clicks, and a pending point exists exactly after an odd number
  of clicks.
\<close>

theorem pairs_of_submissions:
  assumes "\<forall>e\<in>set evs. fst e \<in> set [''line'', ''measure'']" and "start_point s = None"
  shows "length (drawings (submit_points evs s)) = length (drawings s) + length evs div 2
         \<and> (start_point (submit_points evs s) \<noteq> None \<longleftrightarrow> odd (length evs))"
  using submit_points_count [OF assms(1), of s] assms(2) by simp

theorem pairs_of_submissions_witness:
  "length (drawings (submit_points [(''line'', 1, 1), (''measure'', 2, 2), (''line'', 3, 3)]
      initial_session_state)) = 1
   \<and> start_point (submit_points [(''line'', 1, 1), (''measure'', 2, 2), (''line'', 3, 3)]
      initial_session_state) \<noteq> None"
  using pairs_of_submissions
    [of "[(''line'', 1, 1), (''measure'', 2, 2), (''line'', 3, 3)]" initial_session_state]
  by (simp add: initial_session_state_def)

text \<open>
  C5. A point submitted while the tool is \<^verbatim>\<open>select\<close> changes nothing: the list of
  drawings and the pending start point are as before, no message is shown and no
  rerun is asked for.
\<close>

theorem select_submit_is_noop:
  "handle_point_addition x y (s\<lparr>current_tool := ''select''\<rparr>)
     = (s\<lparr>current_tool := ''select''\<rparr>, [], False)"
  by (simp add: handle_point_addition_def)

subsection \<open>A run that opens its upload\<close>

text \<open>
  The state a run ends in: the state the body left, reset when the body raised.
\<close>

lemma main_on_body:
  assumes "uploaded_file inp = Some f" and "verify_and_convert_image E f = (Some img, evs)"
  shows "fst (main E inp s) =
     (case snd (snd (main_body E inp f img s)) of
        Inl e \<Rightarrow> reset_session_state (fst (main_body E inp f img s))
      | Inr rerun \<Rightarrow> fst (main_body E inp f img s))"
  using assms by (simp add: main_def split: prod.splits sum.splits)

text \<open>
  The state the body leaves when the copy and the sidebar image go through: the
  state at its start taken through the steps of the body in order. The download
  columns may still raise; they do not touch the state.
\<close>

lemma main_body_state:
  assumes "pil_copy E img = Inr copied" and "st_image_raises E img = None"
  shows "fst (main_body E inp f img s) =
     fst (display_image_with_drawing_tools E inp
       ((if clear_clicked inp then clear_all_annotations else id)
         (set_current_tool (tool_radio inp)
           ((if remove_bg_clicked inp then (\<lambda>s. fst (remove_background E img s)) else id)
             (s\<lparr>original_filename := Some (splitext_root E (upload_name f)),
                original_image := Some img, active_image := Some copied\<rparr>)))))"
  using assms
  by (simp add: main_body_def Let_def split_def split: option.splits)

text \<open>A body that did not raise got through the copy and the sidebar image.\<close>

lemma main_body_completed:
  assumes "snd (snd (main_body E inp f img s)) = Inr rerun"
  shows "\<exists>copied. pil_copy E img = Inr copied \<and> st_image_raises E img = None"
proof (cases "pil_copy E img")
  case (Inl e)
  with assms show ?thesis by (simp add: main_body_def)
next
  case (Inr copied)
  with assms show ?thesis
    by (cases "st_image_raises E img") (simp_all add: main_body_def)
qed

text \<open>The state the body leaves when the copy or the sidebar image raises.\<close>

lemma main_body_early_raise:
  "pil_copy E img = Inl e \<Longrightarrow>
   main_body E inp f img s =
     (s\<lparr>original_filename := Some (splitext_root E (upload_name f)),
        original_image := Some img\<rparr>, [], Inl e)"
  "pil_copy E img = Inr copied \<Longrightarrow> st_image_raises E img = Some e \<Longrightarrow>
   main_body E inp f img s =
     (s\<lparr>original_filename := Some (splitext_root E (upload_name f)),
        original_image := Some img, active_image := Some copied\<rparr>, [], Inl e)"
  by (simp_all add: main_body_def)

lemma remove_background_annotations:
  "drawings (fst (remove_background E img s)) = drawings s
   \<and> start_point (fst (remove_background E img s)) = start_point s
   \<and> current_tool (fst (remove_background E img s)) = current_tool s"
  by (simp add: remove_background_def split: sum.splits)

lemma display_without_click:
  "\<not> add_point_clicked inp \<Longrightarrow> fst (display_image_with_drawing_tools E inp s) = s"
  by (simp add: display_image_with_drawing_tools_def Let_def split: option.splits)

lemma display_keeps_images:
  "original_image (fst (display_image_with_drawing_tools E inp s)) = original_image s
   \<and> bg_removed_image (fst (display_image_with_drawing_tools E inp s)) = bg_removed_image s
   \<and> active_image (fst (display_image_with_drawing_tools E inp s)) = active_image s"
  by (simp add: display_image_with_drawing_tools_def handle_point_addition_def Let_def
        split: option.splits)

subsection \<open>Clearing\<close>

text \<open>
  C6. Whatever the state was, the Clear All Annotations block leaves the list of
  drawings empty and no pending point.
\<close>

theorem clear_all_empties:
  "drawings (clear_all_annotations s) = [] \<and> start_point (clear_all_annotations s) = None"
  by (simp add: clear_all_annotations_def)

text \<open>
  The same for a whole run in which the button is clicked: nothing that follows the
  block in the run brings a drawing or a pending point back.
\<close>

lemma main_clear_clicked:
  assumes "uploaded_file inp = Some f" and "verify_and_convert_image E f = (Some img, evs)"
    and "clear_clicked inp" and "\<not> add_point_clicked inp"
  shows "drawings (fst (main E inp s)) = [] \<and> start_point (fst (main E inp s)) = None"
proof (cases "snd (snd (main_body E inp f img s))")
  case (Inl e)
  then show ?thesis
    by (simp add: main_on_body [OF assms(1,2)] reset_session_state_def)
next
  case (Inr rerun)
  from main_body_completed [OF Inr] obtain copied
    where "pil_copy E img = Inr copied" and "st_image_raises E img = None" by blast
  then show ?thesis
    using assms(3,4) Inr
    by (simp add: main_on_body [OF assms(1,2)] main_body_state display_without_click
          clear_all_annotations_def)
qed

subsection \<open>Background removal that fails\<close>

text \<open>
  C7. If \<^verbatim>\<open>remove(image)\<close> raises, the Remove Background block leaves the session
  state exactly as it was before the call (the active image and the drawings among
  it) and shows the message \<^verbatim>\<open>Background removal failed:\<close> followed by the text of
  the exception.
\<close>

theorem failed_removal_leaves_state:
  "rembg_remove E img = Inl e \<Longrightarrow>
   remove_background E img s = (s, [StError (''Background removal failed: '' @ e)])"
  by (simp add: remove_background_def)

theorem failed_removal_leaves_state_witness:
  "remove_background sample_ext
     \<lparr>mode = ''RGB'', img_width = 640, img_height = 480, pixels = 4\<rparr>
     (runs sample_ext [click ''line'' 1 1, click ''line'' 2 2] initial_session_state)
   = (runs sample_ext [click ''line'' 1 1, click ''line'' 2 2] initial_session_state,
      [StError ''Background removal failed: model file not found''])"
  using failed_removal_leaves_state [of sample_ext
      "\<lparr>mode = ''RGB'', img_width = 640, img_height = 480, pixels = 4\<rparr>"
      "''model file not found''"
      "runs sample_ext [click ''line'' 1 1, click ''line'' 2 2] initial_session_state"]
  by (simp add: sample_ext_def)

text \<open>
  Seen from a whole run: when the removal fails, the run ends in the state it would
  have ended in had the button not been clicked.
\<close>

lemma display_ignores_remove_click:
  "display_image_with_drawing_tools E (inp\<lparr>remove_bg_clicked := b\<rparr>) s
     = display_image_with_drawing_tools E inp s"
  by (simp add: display_image_with_drawing_tools_def Let_def split: option.splits)

lemma download_buttons_ignore_remove_click:
  "download_buttons E (inp\<lparr>remove_bg_clicked := b\<rparr>) s = download_buttons E inp s"
  by (simp add: download_buttons_def)

lemma main_body_failed_removal:
  assumes "rembg_remove E img = Inl e"
  shows "fst (main_body E (inp\<lparr>remove_bg_clicked := True\<rparr>) f img s)
           = fst (main_body E (inp\<lparr>remove_bg_clicked := False\<rparr>) f img s)
       \<and> snd (snd (main_body E (inp\<lparr>remove_bg_clicked := True\<rparr>) f img s))
           = snd (snd (main_body E (inp\<lparr>remove_bg_clicked := False\<rparr>) f img s))"
  using assms
  by (simp add: main_body_def remove_background_def display_ignores_remove_click
        download_buttons_ignore_remove_click Let_def split_def split: sum.splits option.splits)

lemma main_failed_removal:
  assumes "uploaded_file inp = Some f" and "verify_and_convert_image E f = (Some img, evs)"
    and "rembg_remove E img = Inl e"
  shows "fst (main E (inp\<lparr>remove_bg_clicked := True\<rparr>) s)
           = fst (main E (inp\<lparr>remove_bg_clicked := False\<rparr>) s)"
  using assms(1,2) main_body_failed_removal [OF assms(3), of inp f s]
  by (simp add: main_on_body [of _ f E img evs] split: sum.splits)

subsection \<open>Loading an image and resetting\<close>

text \<open>
  C3, as the claim states it, fails: after two completed clicks and a third, pending
  one, a run with another file in the uploader still has the drawing and the pending
  point.
\<close>

theorem loading_keeps_annotations:
  "drawings (runs sample_ext [click ''line'' 1 1, click ''line'' 2 2, click ''measure'' 7 8,
                load other_upload] initial_session_state)
     = [\<lparr>dtype = ''line'', x0 = 1, y0 = 1, x1 = 2, y1 = 2, color = ''#FF0000'', width = 2,
         measure_flag = False\<rparr>]
   \<and> start_point (runs sample_ext [click ''line'' 1 1, click ''line'' 2 2,
                click ''measure'' 7 8, load other_upload] initial_session_state) = Some (7, 8)"
  by (simp add: run_defs sample_defs)

text \<open>
  C3, amended. \<^verbatim>\<open>reset_session_state\<close> leaves the list of drawings empty, no pending
  point and the tool on \<^verbatim>\<open>select\<close>, whatever the state was, and a run whose upload
  opens but in which a call of the body raises into the outer \<^verbatim>\<open>except\<close> ends in
  such a reset state. A run whose upload opens and whose body does not raise, with
  neither Clear All nor Add Point clicked, keeps the drawings and the pending point
  of the state it started in and sets the tool to what the radio shows.
\<close>

theorem reset_clears_and_load_keeps:
  "(drawings (reset_session_state s) = [] \<and> start_point (reset_session_state s) = None
      \<and> current_tool (reset_session_state s) = ''select'')
   \<and> (uploaded_file inp = Some f \<and> verify_and_convert_image E f = (Some img, evs)
        \<and> main_body E inp f img s = (s', evs', Inl e)
      \<longrightarrow> drawings (fst (main E inp s)) = [] \<and> start_point (fst (main E inp s)) = None
          \<and> current_tool (fst (main E inp s)) = ''select'')
   \<and> (uploaded_file inp = Some f \<and> verify_and_convert_image E f = (Some img, evs)
        \<and> main_body E inp f img s = (s', evs', Inr rerun)
        \<and> \<not> clear_clicked inp \<and> \<not> add_point_clicked inp
      \<longrightarrow> drawings (fst (main E inp s)) = drawings s
          \<and> start_point (fst (main E inp s)) = start_point s
          \<and> current_tool (fst (main E inp s)) = tool_radio inp)"
proof (intro conjI impI)
  show "drawings (reset_session_state s) = []" "start_point (reset_session_state s) = None"
    "current_tool (reset_session_state s) = ''select''"
    by (simp_all add: reset_session_state_def)
next
  assume "uploaded_file inp = Some f \<and> verify_and_convert_image E f = (Some img, evs)
        \<and> main_body E inp f img s = (s', evs', Inl e)"
  then have m: "fst (main E inp s) = reset_session_state s'"
    by (simp add: main_on_body [of inp f E img evs s])
  show "drawings (fst (main E inp s)) = []" "start_point (fst (main E inp s)) = None"
    "current_tool (fst (main E inp s)) = ''select''"
    by (simp_all add: m reset_session_state_def)
next
  assume a: "uploaded_file inp = Some f \<and> verify_and_convert_image E f = (Some img, evs)
        \<and> main_body E inp f img s = (s', evs', Inr rerun)
        \<and> \<not> clear_clicked inp \<and> \<not> add_point_clicked inp"
  then have r: "snd (snd (main_body E inp f img s)) = Inr rerun" by simp
  from main_body_completed [OF r] obtain copied
    where c: "pil_copy E img = Inr copied" "st_image_raises E img = None" by blast
  from a r have m: "fst (main E inp s) =
     set_current_tool (tool_radio inp)
       ((if remove_bg_clicked inp then (\<lambda>s. fst (remove_background E img s)) else id)
          (s\<lparr>original_filename := Some (splitext_root E (upload_name f)),
             original_image := Some img, active_image := Some copied\<rparr>))"
    using main_body_state [OF c, of inp f s]
    by (simp add: main_on_body [of inp f E img evs s] display_without_click)
  show "drawings (fst (main E inp s)) = drawings s"
    "start_point (fst (main E inp s)) = start_point s"
    "current_tool (fst (main E inp s)) = tool_radio inp"
    by (simp_all add: m set_current_tool_def remove_background_annotations)
qed

theorem reset_clears_and_load_keeps_witness:
  "drawings (fst (main sample_ext (load grey16_upload)
       (runs sample_ext [click ''line'' 1 1, click ''line'' 2 2, click ''measure'' 7 8]
          initial_session_state))) = []
   \<and> start_point (fst (main sample_ext (load grey16_upload)
       (runs sample_ext [click ''line'' 1 1, click ''line'' 2 2, click ''measure'' 7 8]
          initial_session_state))) = None
   \<and> drawings (fst (main sample_ext (load other_upload\<lparr>tool_radio := ''line''\<rparr>)
       (runs sample_ext [click ''line'' 1 1, click ''line'' 2 2, click ''measure'' 7 8]
          initial_session_state)))
      = [\<lparr>dtype = ''line'', x0 = 1, y0 = 1, x1 = 2, y1 = 2, color = ''#FF0000'', width = 2,
          measure_flag = False\<rparr>]
   \<and> start_point (fst (main sample_ext (load other_upload\<lparr>tool_radio := ''line''\<rparr>)
       (runs sample_ext [click ''line'' 1 1, click ''line'' 2 2, click ''measure'' 7 8]
          initial_session_state))) = Some (7, 8)
   \<and> current_tool (fst (main sample_ext (load other_upload\<lparr>tool_radio := ''line''\<rparr>)
       (runs sample_ext [click ''line'' 1 1, click ''line'' 2 2, click ''measure'' 7 8]
          initial_session_state))) = ''line''"
  using
    reset_clears_and_load_keeps
      [of "runs sample_ext [click ''line'' 1 1, click ''line'' 2 2, click ''measure'' 7 8]
             initial_session_state"
          "load grey16_upload" grey16_upload sample_ext
          "\<lparr>mode = ''I;16'', img_width = 640, img_height = 480, pixels = 1\<rparr>" "[]"
          "fst (main_body sample_ext (load grey16_upload) grey16_upload
             \<lparr>mode = ''I;16'', img_width = 640, img_height = 480, pixels = 1\<rparr>
             (runs sample_ext [click ''line'' 1 1, click ''line'' 2 2, click ''measure'' 7 8]
                initial_session_state))"
          "[]" "''cannot write mode I;16 as JPEG''" undefined]
    reset_clears_and_load_keeps
      [of "runs sample_ext [click ''line'' 1 1, click ''line'' 2 2, click ''measure'' 7 8]
             initial_session_state"
          "load other_upload\<lparr>tool_radio := ''line''\<rparr>" other_upload sample_ext
          "\<lparr>mode = ''RGB'', img_width = 640, img_height = 480, pixels = 3\<rparr>" "[]"
          "fst (main_body sample_ext (load other_upload\<lparr>tool_radio := ''line''\<rparr>) other_upload
             \<lparr>mode = ''RGB'', img_width = 640, img_height = 480, pixels = 3\<rparr>
             (runs sample_ext [click ''line'' 1 1, click ''line'' 2 2, click ''measure'' 7 8]
                initial_session_state))"
          "fst (snd (main_body sample_ext (load other_upload\<lparr>tool_radio := ''line''\<rparr>)
             other_upload
             \<lparr>mode = ''RGB'', img_width = 640, img_height = 480, pixels = 3\<rparr>
             (runs sample_ext [click ''line'' 1 1, click ''line'' 2 2, click ''measure'' 7 8]
                initial_session_state)))"
          undefined False]
  by (simp add: run_defs sample_defs)

subsection \<open>Conversion to RGB\<close>




subsection \<open>Which tool decides\<close>

text \<open>
  C10. A gesture is started with the tool \<open>t1\<close> (\<^verbatim>\<open>line\<close> or \<^verbatim>\<open>measure\<close>) at
  \<open>(a, b)\<close>. Setting the tool to anything keeps the pending point, and so does a
  click while the tool is \<^verbatim>\<open>select\<close>. When the gesture is completed at \<open>(x, y)\<close>
  with the tool \<open>t2\<close>, the drawing added runs from \<open>(a, b)\<close> to \<open>(x, y)\<close> and is a
  measurement exactly when \<open>t2\<close> is \<^verbatim>\<open>measure\<close>, whatever \<open>t1\<close> was.
\<close>

theorem measure_flag_from_second_point:
  assumes "t1 \<in> set [''line'', ''measure'']" and "t2 \<in> set [''line'', ''measure'']"
  shows "start_point (set_current_tool t (submit_points [(t1, a, b)] (s\<lparr>start_point := None\<rparr>)))
           = Some (a, b)
       \<and> start_point (submit_points [(t1, a, b), (''select'', c, d)] (s\<lparr>start_point := None\<rparr>))
           = Some (a, b)
       \<and> submit_points [(t1, a, b), (''select'', c, d), (t2, x, y)] (s\<lparr>start_point := None\<rparr>)
           = s\<lparr>current_tool := t2,
               drawings := drawings s @
                 [\<lparr>dtype = ''line'', x0 = a, y0 = b, x1 = x, y1 = y,
                   color = (case ss_color s of None \<Rightarrow> ''#FF0000'' | Some c \<Rightarrow> c),
                   width = (case ss_line_width s of None \<Rightarrow> 2 | Some w \<Rightarrow> w),
                   measure_flag = (t2 = ''measure'')\<rparr>],
               start_point := None\<rparr>"
  using assms
  by (auto simp add: handle_point_addition_def set_current_tool_def)

theorem measure_flag_from_second_point_witness:
  "start_point (set_current_tool ''select''
      (submit_points [(''line'', 1, 1)] (initial_session_state\<lparr>start_point := None\<rparr>)))
     = Some (1, 1)
   \<and> start_point (submit_points [(''line'', 1, 1), (''select'', 9, 9)]
        (initial_session_state\<lparr>start_point := None\<rparr>)) = Some (1, 1)
   \<and> drawings (submit_points [(''line'', 1, 1), (''select'', 9, 9), (''measure'', 4, 5)]
        (initial_session_state\<lparr>start_point := None\<rparr>))
     = [\<lparr>dtype = ''line'', x0 = 1, y0 = 1, x1 = 4, y1 = 5, color = ''#FF0000'', width = 2,
         measure_flag = True\<rparr>]"
  using measure_flag_from_second_point
    [of "''line''" "''measure''" "''select''" 1 1 initial_session_state 9 9 4 5]
  by (simp add: initial_session_state_def)

subsection \<open>The colour and the width of a drawing\<close>

text \<open>
  Nothing in a run stores anything under \<^verbatim>\<open>'color'\<close> or \<^verbatim>\<open>'line_width'\<close>, so
  from a fresh session every drawing ever added has the colour \<^verbatim>\<open>#FF0000\<close> and
  the width 2, whatever the colour picker and the width slider show.
\<close>

lemma handle_point_addition_default_style:
  "default_style_only s \<Longrightarrow> default_style_only (fst (handle_point_addition x y s))"
  by (simp add: default_style_only_def handle_point_addition_def split: option.splits)

lemma display_default_style:
  "default_style_only s \<Longrightarrow>
   default_style_only (fst (display_image_with_drawing_tools E inp s))"
  using handle_point_addition_default_style [of s "slider_x inp" "slider_y inp"]
  by (simp add: display_image_with_drawing_tools_def Let_def split_def split: option.splits)

lemma remove_background_default_style:
  "default_style_only s \<Longrightarrow> default_style_only (fst (remove_background E img s))"
  by (simp add: default_style_only_def remove_background_def split: sum.splits)

lemma reset_default_style:
  "default_style_only s \<Longrightarrow> default_style_only (reset_session_state s)"
  by (simp add: default_style_only_def reset_session_state_def)

lemma main_body_default_style:
  assumes "default_style_only s"
  shows "default_style_only (fst (main_body E inp f img s))"
proof (cases "pil_copy E img")
  case (Inl e)
  with assms show ?thesis
    by (simp add: main_body_early_raise(1) default_style_only_def)
next
  case (Inr copied)
  show ?thesis
  proof (cases "st_image_raises E img")
    case (Some e)
    with assms Inr show ?thesis
      by (simp add: main_body_early_raise(2) default_style_only_def)
  next
    case None
    let ?s2 = "s\<lparr>original_filename := Some (splitext_root E (upload_name f)),
                original_image := Some img, active_image := Some copied\<rparr>"
    from assms have s2: "default_style_only ?s2" by (simp add: default_style_only_def)
    have "default_style_only
       ((if remove_bg_clicked inp then (\<lambda>s. fst (remove_background E img s)) else id) ?s2)"
      using s2 remove_background_default_style [of ?s2 E img] by simp
    then have s5: "default_style_only
       ((if clear_clicked inp then clear_all_annotations else id)
         (set_current_tool (tool_radio inp)
           ((if remove_bg_clicked inp then (\<lambda>s. fst (remove_background E img s)) else id) ?s2)))"
      by (simp add: default_style_only_def set_current_tool_def clear_all_annotations_def)
    show ?thesis
      using main_body_state [OF Inr None, of inp f s] display_default_style [OF s5]
      by simp
  qed
qed

lemma main_default_style:
  assumes "default_style_only s"
  shows "default_style_only (fst (main E inp s))"
proof (cases "uploaded_file inp")
  case None
  with assms show ?thesis by (simp add: main_def)
next
  case (Some f)
  obtain r evs where v: "verify_and_convert_image E f = (r, evs)"
    by (cases "verify_and_convert_image E f") auto
  show ?thesis
  proof (cases r)
    case None
    with assms Some v show ?thesis by (simp add: main_def)
  next
    case (Some img)
    with v have v': "verify_and_convert_image E f = (Some img, evs)" by simp
    show ?thesis
      using main_body_default_style [OF assms, of E inp f img]
      by (simp add: main_on_body [OF \<open>uploaded_file inp = Some f\<close> v'] reset_default_style
            split: sum.splits)
  qed
qed

lemma runs_default_style:
  "default_style_only s \<Longrightarrow> default_style_only (runs E inps s)"
  by (induction inps arbitrary: s) (simp_all add: main_default_style)

lemma every_drawing_has_default_style:
  "list_all (\<lambda>d. color d = ''#FF0000'' \<and> width d = 2)
     (drawings (runs E inps initial_session_state))"
proof -
  have "default_style_only initial_session_state"
    by (simp add: default_style_only_def initial_session_state_def)
  then have "default_style_only (runs E inps initial_session_state)"
    by (rule runs_default_style)
  then show ?thesis by (simp add: default_style_only_def)
qed

text \<open>
  C2. The user has picked the colour \<^verbatim>\<open>#00FF00\<close> and the width 5 and makes a
  line gesture from \<open>(1, 1)\<close> to \<open>(2, 2)\<close>. The drawing added has the start, the end
  and the measurement flag the claim says, but the colour \<^verbatim>\<open>#FF0000\<close> and the
  width 2, not the ones picked.
\<close>

theorem picked_color_and_width_are_not_used:
  "drawings (runs sample_ext [click ''line'' 1 1, click ''line'' 2 2] initial_session_state)
     = [\<lparr>dtype = ''line'', x0 = 1, y0 = 1, x1 = 2, y1 = 2, color = ''#FF0000'', width = 2,
         measure_flag = False\<rparr>]
   \<and> color_picker (click ''line'' 2 2) = ''#00FF00'' \<and> width_slider (click ''line'' 2 2) = 5"
  by (simp add: run_defs sample_defs)

subsection \<open>The two rendering paths\<close>

text \<open>
  The export path draws the lines of the display path and none of its labels; the
  two agree on the artists when no drawing is a measurement.
\<close>

lemma redraw_is_lines_of_display:
  "redraw_all_annotations ds
     = filter (\<lambda>a. case a of Line2D xs ys c w \<Rightarrow> True | Text x y l c n \<Rightarrow> False)
         (draw_existing_annotations ds)"
  by (induction ds) simp_all

lemma same_artists_without_measurements:
  "list_all (\<lambda>d. \<not> measure_flag d) ds \<Longrightarrow>
   draw_existing_annotations ds = redraw_all_annotations ds"
  by (induction ds) simp_all

text \<open>
  C1. With one measurement from \<open>(0, 0)\<close> to \<open>(3, 4)\<close> in the list, a run in which
  Save Image with Annotations is clicked shows a figure with the line and its label
  at \<open>(3/2, 2)\<close>, and offers for download a figure with the line only: the exported
  image has no measurement label. Its figure size differs as well.
\<close>

theorem export_omits_measurement_label:
  "fst (snd (main sample_ext (load sample_upload\<lparr>save_clicked := True\<rparr>)
     (runs sample_ext [click ''measure'' 0 0, click ''measure'' 3 4] initial_session_state)))
   = [SidebarImage \<lparr>mode = ''RGB'', img_width = 640, img_height = 480, pixels = 4\<rparr>
        ''Original Image'',
      Pyplot \<lparr>figsize = Some (10, 10),
              shown = \<lparr>mode = ''RGB'', img_width = 640, img_height = 480, pixels = 4\<rparr>,
              artists = [Line2D [0, 3] [0, 4] ''#FF0000'' 2,
                         Text (3 / 2) 2 (Distance_px 25) ''#FF0000'' 12]\<rparr>,
      DownloadButton ''Download Annotated Image''
        (AnnotatedPng (Png \<lparr>figsize = None,
              shown = \<lparr>mode = ''RGB'', img_width = 640, img_height = 480, pixels = 4\<rparr>,
              artists = [Line2D [0, 3] [0, 4] ''#FF0000'' 2]\<rparr> 300))
        ''annotated_image.png'']"
  by (simp add: run_defs sample_defs)

end

